theory Spec2Isabelle
  imports Complex_Main "HOL-Library.Multiset"
begin

section \<open>Exceptions and library functions\<close>

text \<open>
  Every exception the statistics path of \<^verbatim>\<open>main.py\<close> can raise is a value:
  FastAPI's \<^verbatim>\<open>HTTPException(status_code, detail)\<close>, the \<^verbatim>\<open>ValueError\<close> of
  \<^verbatim>\<open>math.sqrt\<close> on a negative argument, and the \<^verbatim>\<open>StatisticsError\<close> of
  \<^verbatim>\<open>statistics.stdev\<close> on fewer than two data points. The last two are not caught
  by any handler, so they leave the endpoint as an unhandled exception.

  Python floats are idealised as real numbers, and \<^verbatim>\<open>math.sin\<close>, \<^verbatim>\<open>math.cos\<close>,
  \<^verbatim>\<open>math.sqrt\<close> and \<^verbatim>\<open>math.atan2\<close> as the exact functions: rounding is not part of
  the model. In double arithmetic the value \<open>a\<close> of \<open>haversine_distance\<close> can round
  above 1 for points that are almost antipodal, where \<^verbatim>\<open>math.sqrt(1 - a)\<close> raises; the
  model keeps that branch, and the properties of the statistics endpoint below are
  stated on whatever the distance function and the filter give, a number or the
  exception. Concrete distances are evaluated only between identical points, where \<open>a\<close>
  is exactly 0, and between \<open>(0, 0)\<close> and \<open>(0, 180)\<close>, where \<open>a\<close> is exactly 1, in
  doubles as in the reals.
\<close>

datatype exc = HTTPException nat string | ValueError | StatisticsError

definition math_radians :: "real \<Rightarrow> real" where
  "math_radians x = x * (pi / 180)"

definition math_sqrt :: "real \<Rightarrow> exc + real" where
  "math_sqrt x = (if x < 0 then Inl ValueError else Inr (sqrt x))"

definition math_atan2 :: "real \<Rightarrow> real \<Rightarrow> real" where
  "math_atan2 y x =
     (if 0 < x then arctan (y / x)
      else if x < 0 then (if 0 \<le> y then arctan (y / x) + pi else arctan (y / x) - pi)
      else if 0 < y then pi / 2
      else if y < 0 then - (pi / 2)
      else 0)"

text \<open>
  \<^verbatim>\<open>statistics.stdev\<close>: the sample standard deviation (denominator \<open>n - 1\<close>); it raises
  \<^verbatim>\<open>StatisticsError\<close> when there are fewer than two data points.
\<close>

definition stdev :: "int list \<Rightarrow> exc + real" where
  "stdev data =
     (let n = length data in
      if n < 2 then Inl StatisticsError
      else
        let mean = real_of_int (sum_list data) / real n;
            ss = sum_list (map (\<lambda>x. (real_of_int x - mean)\<^sup>2) data)
        in Inr (sqrt (ss / real (n - 1))))"

section \<open>The geo-distance function\<close>

definition haversine_distance :: "real \<Rightarrow> real \<Rightarrow> real \<Rightarrow> real \<Rightarrow> exc + real" where
  "haversine_distance lat1 lon1 lat2 lon2 =
     (let R = 6371;
          d_lat = math_radians (lat2 - lat1);
          d_lon = math_radians (lon2 - lon1);
          lat1r = math_radians lat1;
          lat2r = math_radians lat2;
          a = sin (d_lat / 2) * sin (d_lat / 2) +
              sin (d_lon / 2) * sin (d_lon / 2) * cos lat1r * cos lat2r
      in case math_sqrt a of
           Inl e \<Rightarrow> Inl e
         | Inr sa \<Rightarrow>
             (case math_sqrt (1 - a) of
                Inl e \<Rightarrow> Inl e
              | Inr sb \<Rightarrow> Inr (R * (2 * math_atan2 sa sb) * 1000)))"

section \<open>The statistics endpoint\<close>

text \<open>
  A row of \<^verbatim>\<open>SELECT rating, lat, lng FROM restaurants\<close>: \<^verbatim>\<open>row[0]\<close> is the rating,
  \<^verbatim>\<open>row[1]\<close> the latitude and \<^verbatim>\<open>row[2]\<close> the longitude.
\<close>

type_synonym row = "int \<times> real \<times> real"

record statistics_result =
  count :: nat
  avg :: real
  std :: real

text \<open>
  The list comprehension \<^verbatim>\<open>[row for row in rows if haversine_distance(...) <= radius]\<close>:
  the rows are visited in order and an exception of the distance function ends the
  traversal.
\<close>

fun inside_circle :: "real \<Rightarrow> real \<Rightarrow> int \<Rightarrow> row list \<Rightarrow> exc + row list" where
  "inside_circle latitude longitude radius [] = Inr []"
| "inside_circle latitude longitude radius (row # rows) =
     (case haversine_distance latitude longitude (fst (snd row)) (snd (snd row)) of
        Inl e \<Rightarrow> Inl e
      | Inr d \<Rightarrow>
          (case inside_circle latitude longitude radius rows of
             Inl e \<Rightarrow> Inl e
           | Inr rest \<Rightarrow> Inr (if d \<le> real_of_int radius then row # rest else rest)))"

text \<open>
  Once the rows are filtered: the 404 for an empty list, then the count, the mean and the
  sample standard deviation of the ratings (\<^verbatim>\<open>row[0]\<close>).
\<close>

definition aggregate :: "row list \<Rightarrow> exc + statistics_result" where
  "aggregate inside =
     (if inside = [] then Inl (HTTPException 404 ''Restaurants not found'')
      else
        let n = length inside;
            mean = real_of_int (sum_list (map fst inside)) / real n
        in case stdev (map fst inside) of
             Inl e \<Rightarrow> Inl e
           | Inr s \<Rightarrow> Inr \<lparr>count = n, avg = mean, std = s\<rparr>)"

text \<open>The handler past its validation: filter, then aggregate.\<close>

definition statistics_engine :: "row list \<Rightarrow> real \<Rightarrow> real \<Rightarrow> int \<Rightarrow> exc + statistics_result" where
  "statistics_engine rows latitude longitude radius =
     (case inside_circle latitude longitude radius rows of
        Inl e \<Rightarrow> Inl e
      | Inr inside \<Rightarrow> aggregate inside)"

text \<open>
  The handler takes the rows the query returned as its first argument; the three query
  parameters are \<^verbatim>\<open>Optional\<close>, with \<open>None\<close> for an absent one.
\<close>

definition get_restaurants_statistics ::
  "row list \<Rightarrow> real option \<Rightarrow> real option \<Rightarrow> int option \<Rightarrow> exc + statistics_result" where
  "get_restaurants_statistics rows latitude longitude radius =
     (if latitude = None \<or> longitude = None \<or> radius = None then
        Inl (HTTPException 400 ''Latitude, longitude, and radius are required query parameters.'')
      else if \<not> (- 90 \<le> the latitude \<and> the latitude \<le> 90) then
        Inl (HTTPException 400 ''Invalid latitude value. Must be between -90 and 90.'')
      else if \<not> (- 180 \<le> the longitude \<and> the longitude \<le> 180) then
        Inl (HTTPException 400 ''Invalid longitude value. Must be between -180 and 180.'')
      else if the radius \<le> 0 then
        Inl (HTTPException 400 ''Invalid radius value. Must be greater than 0.'')
      else statistics_engine rows (the latitude) (the longitude) (the radius))"

text \<open>
  The outcomes of the validation contract as section 4.3 of the specification lists them,
  checked in its order.
\<close>

datatype validation = MissingParameter | InvalidLatitude | InvalidLongitude | InvalidRadius | Valid

definition spec_validation :: "real option \<Rightarrow> real option \<Rightarrow> int option \<Rightarrow> validation" where
  "spec_validation latitude longitude radius =
     (case (latitude, longitude, radius) of
        (Some la, Some lo, Some ra) \<Rightarrow>
          if la \<notin> {- 90 .. 90} then InvalidLatitude
          else if lo \<notin> {- 180 .. 180} then InvalidLongitude
          else if ra \<le> 0 then InvalidRadius
          else Valid
      | _ \<Rightarrow> MissingParameter)"

definition validation_error :: "validation \<Rightarrow> exc option" where
  "validation_error v =
     (case v of
        MissingParameter \<Rightarrow>
          Some (HTTPException 400 ''Latitude, longitude, and radius are required query parameters.'')
      | InvalidLatitude \<Rightarrow>
          Some (HTTPException 400 ''Invalid latitude value. Must be between -90 and 90.'')
      | InvalidLongitude \<Rightarrow>
          Some (HTTPException 400 ''Invalid longitude value. Must be between -180 and 180.'')
      | InvalidRadius \<Rightarrow>
          Some (HTTPException 400 ''Invalid radius value. Must be greater than 0.'')
      | Valid \<Rightarrow> None)"

section \<open>The record store and the routes\<close>

record restaurant =
  id' :: string
  rating :: int
  name :: string
  site :: string
  email :: string
  phone :: string
  street :: string
  city :: string
  state :: string
  lat :: real
  lng :: real

definition select_rating_lat_lng :: "restaurant list \<Rightarrow> row list" where
  "select_rating_lat_lng db = map (\<lambda>r. (rating r, lat r, lng r)) db"

definition get_all_restaurants :: "restaurant list \<Rightarrow> exc + restaurant list" where
  "get_all_restaurants db = Inr db"

definition get_restaurant_by_id :: "restaurant list \<Rightarrow> string \<Rightarrow> exc + restaurant" where
  "get_restaurant_by_id db restaurant_id =
     (case find (\<lambda>r. id' r = restaurant_id) db of
        None \<Rightarrow> Inl (HTTPException 404 ''Restaurant not found'')
      | Some r \<Rightarrow> Inr r)"

text \<open>
  The decorators \<^verbatim>\<open>@app.get\<close>, \<^verbatim>\<open>@app.post\<close>, \<^verbatim>\<open>@app.put\<close> and \<^verbatim>\<open>@app.delete\<close>
  append one route each to the application's route list, in the order of the file. A
  request path is its list of segments: \<^verbatim>\<open>/restaurants/statistics\<close> is
  \<open>[''restaurants'', ''statistics'']\<close>. A path parameter \<^verbatim>\<open>{restaurant_id}\<close> matches any
  one non-empty segment.
\<close>

datatype http_method = GET | POST | PUT | DELETE

datatype segment = Literal string | Param string

datatype endpoint =
    Get_all_restaurants
  | Get_restaurant_by_id
  | Create_restaurant
  | Update_restaurant
  | Delete_restaurant
  | Get_restaurants_statistics

record route =
  route_method :: http_method
  route_path :: "segment list"
  route_endpoint :: endpoint

definition routes :: "route list" where
  "routes =
     [\<lparr>route_method = GET, route_path = [Literal ''restaurants''],
       route_endpoint = Get_all_restaurants\<rparr>,
      \<lparr>route_method = GET, route_path = [Literal ''restaurants'', Param ''restaurant_id''],
       route_endpoint = Get_restaurant_by_id\<rparr>,
      \<lparr>route_method = POST, route_path = [Literal ''restaurants''],
       route_endpoint = Create_restaurant\<rparr>,
      \<lparr>route_method = PUT, route_path = [Literal ''restaurants'', Param ''restaurant_id''],
       route_endpoint = Update_restaurant\<rparr>,
      \<lparr>route_method = DELETE, route_path = [Literal ''restaurants'', Param ''restaurant_id''],
       route_endpoint = Delete_restaurant\<rparr>,
      \<lparr>route_method = GET, route_path = [Literal ''restaurants'', Literal ''statistics''],
       route_endpoint = Get_restaurants_statistics\<rparr>]"

fun match_path :: "segment list \<Rightarrow> string list \<Rightarrow> (string \<times> string) list option" where
  "match_path [] [] = Some []"
| "match_path (Literal s # segs) (p # ps) =
     (if s = p then match_path segs ps else None)"
| "match_path (Param x # segs) (p # ps) =
     (if p = [] then None
      else case match_path segs ps of None \<Rightarrow> None | Some params \<Rightarrow> Some ((x, p) # params))"
| "match_path _ _ = None"

text \<open>
  The router tries the routes in order. The first route whose path and method both match
  handles the request; a route whose path matches but whose method does not is remembered
  (the first such only) and used when no route matches fully.
\<close>

fun dispatch ::
  "route list \<Rightarrow> (route \<times> (string \<times> string) list) option \<Rightarrow> http_method \<Rightarrow> string list \<Rightarrow>
   (route \<times> (string \<times> string) list) option" where
  "dispatch [] partial m p = partial"
| "dispatch (r # rs) partial m p =
     (case match_path (route_path r) p of
        None \<Rightarrow> dispatch rs partial m p
      | Some params \<Rightarrow>
          if route_method r = m then Some (r, params)
          else dispatch rs (if partial = None then Some (r, params) else partial) m p)"

datatype body =
    RestaurantList "restaurant list"
  | RestaurantJSON restaurant
  | StatisticsJSON statistics_result

text \<open>
  A \<^verbatim>\<open>GET\<close> request against the store \<open>db\<close>: the outcome is the exception raised or the
  body of the 200 response. The query parameters are passed as the statistics endpoint
  would receive them.
\<close>

definition handle_GET ::
  "restaurant list \<Rightarrow> string list \<Rightarrow> real option \<Rightarrow> real option \<Rightarrow> int option \<Rightarrow> exc + body" where
  "handle_GET db path latitude longitude radius =
     (case dispatch routes None GET path of
        None \<Rightarrow> Inl (HTTPException 404 ''Not Found'')
      | Some (r, params) \<Rightarrow>
          (case route_endpoint r of
             Get_all_restaurants \<Rightarrow> map_sum (\<lambda>e. e) RestaurantList (get_all_restaurants db)
           | Get_restaurant_by_id \<Rightarrow>
               (case map_of params ''restaurant_id'' of
                  None \<Rightarrow> Inl (HTTPException 422 ''Unprocessable Entity'')
                | Some restaurant_id \<Rightarrow>
                    map_sum (\<lambda>e. e) RestaurantJSON (get_restaurant_by_id db restaurant_id))
           | Get_restaurants_statistics \<Rightarrow>
               map_sum (\<lambda>e. e) StatisticsJSON
                 (get_restaurants_statistics (select_rating_lat_lng db) latitude longitude radius)
           | _ \<Rightarrow> Inl (HTTPException 405 ''Method Not Allowed'')))"

text \<open>
  A store of two restaurants, both at latitude 0 and longitude 0, with ratings 2 and 4.
\<close>

definition two_restaurants :: "restaurant list" where
  "two_restaurants =
     [\<lparr>id' = ''a'', rating = 2, name = ''A'', site = [], email = [], phone = [], street = [],
       city = [], state = [], lat = 0, lng = 0\<rparr>,
      \<lparr>id' = ''b'', rating = 4, name = ''B'', site = [], email = [], phone = [], street = [],
       city = [], state = [], lat = 0, lng = 0\<rparr>]"

section \<open>The distance function on the inputs the proofs evaluate\<close>

text \<open>
  Between identical points the distance is 0, and between \<open>(0, 0)\<close> and \<open>(0, 180)\<close> it
  is \<open>\<pi> \<cdot> 6371000\<close>. The only exception the function can raise is \<^verbatim>\<open>ValueError\<close>.
\<close>

lemma haversine_distance_same: "haversine_distance la lo la lo = Inr 0"
  by (simp add: haversine_distance_def math_radians_def math_sqrt_def math_atan2_def)

lemma haversine_distance_antipode: "haversine_distance 0 0 0 180 = Inr (pi * 6371000)"
  by (simp add: haversine_distance_def math_radians_def math_sqrt_def math_atan2_def)

lemma haversine_distance_error:
  assumes "haversine_distance lat1 lon1 lat2 lon2 = Inl e"
  shows "e = ValueError"
  using assms
  by (auto simp: haversine_distance_def Let_def math_sqrt_def split: if_splits)

section \<open>Properties of the statistics endpoint\<close>

text \<open>
  The comprehension raises when the distance of some row raises, and otherwise keeps, in
  order, the rows whose distance is at most the radius.
\<close>

lemma inside_circle_eq:
  "inside_circle la lo ra rows =
     (if \<forall>row \<in> set rows. \<exists>d. haversine_distance la lo (fst (snd row)) (snd (snd row)) = Inr d
      then Inr (filter (\<lambda>row. \<exists>d. haversine_distance la lo (fst (snd row)) (snd (snd row)) = Inr d \<and>
                                d \<le> real_of_int ra) rows)
      else Inl ValueError)"
proof (induction rows)
  case Nil
  show ?case by simp
next
  case (Cons row rows)
  show ?case
  proof (cases "haversine_distance la lo (fst (snd row)) (snd (snd row))")
    case (Inl e)
    then have "e = ValueError" by (rule haversine_distance_error)
    with Inl show ?thesis by simp
  next
    case (Inr d)
    with Cons.IH show ?thesis by simp
  qed
qed

lemma handler_valid:
  assumes "- 90 \<le> la" "la \<le> 90" "- 180 \<le> lo" "lo \<le> 180" "0 < ra"
  shows "get_restaurants_statistics rows (Some la) (Some lo) (Some ra) = statistics_engine rows la lo ra"
  using assms by (simp add: get_restaurants_statistics_def)

text \<open>
  C2: for every valid statistics request and every sequence of rows, the list over which
  count, avg and std are computed is exactly the list of the rows whose distance from the
  query point, as \<open>haversine_distance\<close> returns it, is at most the radius: a row is kept
  if and only if its distance \<open>d\<close> satisfies \<open>d \<le> radius\<close>, so a row at distance exactly
  the radius is kept. When the distance of a row raises, the handler ends in that
  exception and computes nothing.
\<close>

theorem filtered_set_exact:
  assumes "- 90 \<le> la" "la \<le> 90" "- 180 \<le> lo" "lo \<le> 180" "0 < ra"
  shows "case inside_circle la lo ra rows of
           Inl e \<Rightarrow> get_restaurants_statistics rows (Some la) (Some lo) (Some ra) = Inl e
         | Inr inside \<Rightarrow>
             get_restaurants_statistics rows (Some la) (Some lo) (Some ra) = aggregate inside \<and>
             inside = filter (\<lambda>row. \<exists>d. haversine_distance la lo (fst (snd row)) (snd (snd row)) = Inr d \<and>
                                      d \<le> real_of_int ra) rows \<and>
             (\<forall>row \<in> set rows. \<forall>d.
                haversine_distance la lo (fst (snd row)) (snd (snd row)) = Inr d \<longrightarrow>
                (row \<in> set inside) = (d \<le> real_of_int ra))"
proof (cases "inside_circle la lo ra rows")
  case (Inl e)
  then show ?thesis
    using assms by (simp add: handler_valid statistics_engine_def)
next
  case (Inr inside)
  have f: "inside = filter (\<lambda>row. \<exists>d. haversine_distance la lo (fst (snd row)) (snd (snd row)) = Inr d \<and>
      d \<le> real_of_int ra) rows"
    using Inr by (simp add: inside_circle_eq split: if_splits)
  have h: "get_restaurants_statistics rows (Some la) (Some lo) (Some ra) = aggregate inside"
    using assms Inr by (simp add: handler_valid statistics_engine_def)
  have m: "\<forall>row \<in> set rows. \<forall>d.
      haversine_distance la lo (fst (snd row)) (snd (snd row)) = Inr d \<longrightarrow>
      (row \<in> set inside) = (d \<le> real_of_int ra)"
    unfolding f by auto
  show ?thesis
    using Inr f h m by simp
qed

theorem filtered_set_exact_witness:
  "(- 90 \<le> (0::real) \<and> (0::real) \<le> 90 \<and> - 180 \<le> (0::real) \<and> (0::real) \<le> 180 \<and> 0 < (1000::int)) \<and>
   inside_circle 0 0 1000 [(4, 0, 0), (5, 0, 180), (2, 0, 0)] = Inr [(4, 0, 0), (2, 0, 0)] \<and>
   haversine_distance 0 0 0 0 = Inr 0 \<and> (0::real) \<le> real_of_int 1000 \<and>
   haversine_distance 0 0 0 180 = Inr (pi * 6371000) \<and> \<not> pi * 6371000 \<le> real_of_int 1000 \<and>
   get_restaurants_statistics [(4, 0, 0), (5, 0, 180), (2, 0, 0)] (Some 0) (Some 0) (Some 1000) =
     Inr \<lparr>count = 2, avg = 3, std = sqrt 2\<rparr>"
proof -
  have far: "\<not> pi * 6371000 \<le> real_of_int 1000"
    using pi_ge_two by simp
  have i: "inside_circle 0 0 1000 [(4, 0, 0), (5, 0, 180), (2, 0, 0)] = Inr [(4, 0, 0), (2, 0, 0)]"
    using far by (simp add: haversine_distance_same haversine_distance_antipode)
  have a: "aggregate [(4, 0, 0), (2, 0, 0)] = Inr \<lparr>count = 2, avg = 3, std = sqrt 2\<rparr>"
    by (simp add: aggregate_def stdev_def Let_def)
  have g: "get_restaurants_statistics [(4, 0, 0), (5, 0, 180), (2, 0, 0)] (Some 0) (Some 0) (Some 1000) =
      Inr \<lparr>count = 2, avg = 3, std = sqrt 2\<rparr>"
    using filtered_set_exact [of 0 0 1000 "[(4, 0, 0), (5, 0, 180), (2, 0, 0)]"]
    unfolding i by (simp add: a)
  show ?thesis
    by (intro conjI i g far haversine_distance_same haversine_distance_antipode) simp_all
qed

text \<open>
  C3: the handler's outcome is decided by the four checks of section 4.3 in their order,
  the first failing check giving its 400: all three parameters present, latitude in
  \<open>[-90, 90]\<close>, longitude in \<open>[-180, 180]\<close>, radius above 0. The four errors differ from
  one another, and the handler past its validation never answers 400, so exactly one
  of the five outcomes fires. With the longitude absent and the latitude 200, the outcome
  is the missing-parameter error.
\<close>

theorem validation_order:
  "get_restaurants_statistics rows latitude longitude radius =
     (case validation_error (spec_validation latitude longitude radius) of
        Some e \<Rightarrow> Inl e
      | None \<Rightarrow> statistics_engine rows (the latitude) (the longitude) (the radius)) \<and>
   inj validation_error \<and>
   statistics_engine rows la lo ra \<noteq> Inl (HTTPException 400 detail) \<and>
   get_restaurants_statistics rows (Some 200) None radius =
     Inl (HTTPException 400 ''Latitude, longitude, and radius are required query parameters.'')"
proof (intro conjI)
  show "get_restaurants_statistics rows latitude longitude radius =
     (case validation_error (spec_validation latitude longitude radius) of
        Some e \<Rightarrow> Inl e
      | None \<Rightarrow> statistics_engine rows (the latitude) (the longitude) (the radius))"
    by (cases latitude; cases longitude; cases radius)
      (auto simp: get_restaurants_statistics_def spec_validation_def validation_error_def)
  show "inj validation_error"
  proof (rule injI)
    fix v w
    assume "validation_error v = validation_error w"
    then show "v = w"
      by (cases v; cases w) (simp_all add: validation_error_def)
  qed
  show "statistics_engine rows la lo ra \<noteq> Inl (HTTPException 400 detail)"
    by (simp add: statistics_engine_def inside_circle_eq aggregate_def stdev_def Let_def)
  show "get_restaurants_statistics rows (Some 200) None radius =
     Inl (HTTPException 400 ''Latitude, longitude, and radius are required query parameters.'')"
    by (simp add: get_restaurants_statistics_def)
qed

text \<open>
  Whenever exactly one row passes the filter of a valid request, the handler ends in the
  uncaught \<^verbatim>\<open>StatisticsError\<close>.
\<close>

lemma one_row_statistics_error:
  assumes "- 90 \<le> la" "la \<le> 90" "- 180 \<le> lo" "lo \<le> 180" "0 < ra"
    and "inside_circle la lo ra rows = Inr [r]"
  shows "get_restaurants_statistics rows (Some la) (Some lo) (Some ra) = Inl StatisticsError"
  using assms(1-5)
  by (simp add: handler_valid statistics_engine_def assms(6) aggregate_def stdev_def)

text \<open>
  C4, the input at which the code departs from it: with exactly one row inside the
  circle, \<^verbatim>\<open>statistics.stdev\<close> raises \<^verbatim>\<open>StatisticsError\<close>, which the handler does
  not catch: the request ends in an unhandled exception.
\<close>

theorem single_record_raises:
  "get_restaurants_statistics [(4, 0, 0)] (Some 0) (Some 0) (Some 1000) = Inl StatisticsError"
  by (simp add: handler_valid statistics_engine_def haversine_distance_same aggregate_def stdev_def)

text \<open>
  C6: for every statistics request with valid parameters whose filtered list is empty,
  the handler raises the 404 \<^verbatim>\<open>Restaurants not found\<close> and returns no statistics.
\<close>

theorem empty_filter_not_found:
  assumes "- 90 \<le> la" "la \<le> 90" "- 180 \<le> lo" "lo \<le> 180" "0 < ra"
    and "inside_circle la lo ra rows = Inr []"
  shows "get_restaurants_statistics rows (Some la) (Some lo) (Some ra) =
         Inl (HTTPException 404 ''Restaurants not found'')"
  using assms(1-5) by (simp add: handler_valid statistics_engine_def assms(6) aggregate_def)

theorem empty_filter_not_found_witness:
  "(- 90 \<le> (0::real) \<and> (0::real) \<le> 90 \<and> - 180 \<le> (0::real) \<and> (0::real) \<le> 180 \<and> 0 < (1::int)) \<and>
   inside_circle 0 0 1 [(5, 0, 180)] = Inr [] \<and>
   get_restaurants_statistics [(5, 0, 180)] (Some 0) (Some 0) (Some 1) =
   Inl (HTTPException 404 ''Restaurants not found'')"
proof -
  have far: "\<not> pi * 6371000 \<le> 1"
    using pi_ge_two by simp
  have e: "inside_circle 0 0 1 [(5, 0, 180)] = Inr []"
    using far by (simp add: haversine_distance_antipode)
  have g: "get_restaurants_statistics [(5, 0, 180)] (Some 0) (Some 0) (Some 1) =
      Inl (HTTPException 404 ''Restaurants not found'')"
    by (rule empty_filter_not_found [OF _ _ _ _ _ e]) simp_all
  show ?thesis
    by (intro conjI e g) simp_all
qed

text \<open>Sample standard deviation and mean of the ratings 1, 3 and 5.\<close>

lemma aggregate_1_3_5:
  "aggregate [(1, p), (3, q), (5, r)] = Inr \<lparr>count = 3, avg = 3, std = 2\<rparr>"
  by (simp add: aggregate_def stdev_def Let_def)

text \<open>
  C7: for three rows at the query centre with ratings 1, 3 and 5, and any radius a valid
  request can carry, the result is count 3, avg 3 and std 2.
\<close>

theorem three_records_at_center:
  assumes "- 90 \<le> la" "la \<le> 90" "- 180 \<le> lo" "lo \<le> 180" "0 < ra"
  shows "get_restaurants_statistics [(1, la, lo), (3, la, lo), (5, la, lo)] (Some la) (Some lo) (Some ra) =
         Inr \<lparr>count = 3, avg = 3, std = 2\<rparr>"
  using assms
  by (simp add: handler_valid statistics_engine_def haversine_distance_same aggregate_1_3_5)

theorem three_records_at_center_witness:
  "(- 90 \<le> (0::real) \<and> (0::real) \<le> 90 \<and> - 180 \<le> (0::real) \<and> (0::real) \<le> 180 \<and> 0 < (1::int)) \<and>
   get_restaurants_statistics [(1, 0, 0), (3, 0, 0), (5, 0, 0)] (Some 0) (Some 0) (Some 1) =
   Inr \<lparr>count = 3, avg = 3, std = 2\<rparr>"
  using three_records_at_center [of 0 0 1] by simp

text \<open>The aggregation depends on the rows as a multiset only.\<close>

lemma stdev_mset:
  assumes "mset xs = mset ys"
  shows "stdev xs = stdev ys"
proof -
  have len: "length xs = length ys"
    using assms by (rule mset_eq_length)
  have sum: "sum_list xs = sum_list ys"
    using assms by (metis sum_mset_sum_list)
  have "mset (map f xs) = mset (map f ys)" for f :: "int \<Rightarrow> real"
    using assms by simp
  then have sq: "sum_list (map f xs) = sum_list (map f ys)" for f :: "int \<Rightarrow> real"
    by (metis sum_mset_sum_list)
  show ?thesis
    unfolding stdev_def Let_def len sum sq [of "\<lambda>x. (real_of_int x - real_of_int (sum_list ys) / real (length ys))\<^sup>2"]
    by (rule refl)
qed

lemma aggregate_mset:
  assumes "mset xs = mset ys"
  shows "aggregate xs = aggregate ys"
proof -
  have len: "length xs = length ys"
    using assms by (rule mset_eq_length)
  have nil: "(xs = []) = (ys = [])"
    using len by auto
  have "mset (map fst xs) = mset (map fst ys)"
    using assms by simp
  then have sd: "stdev (map fst xs) = stdev (map fst ys)"
    and sum: "sum_list (map fst xs) = sum_list (map fst ys)"
    by (rule stdev_mset, metis sum_mset_sum_list)
  show ?thesis
    unfolding aggregate_def Let_def len nil sd sum by (rule refl)
qed

lemma statistics_engine_mset:
  assumes "mset rows = mset rows'"
  shows "statistics_engine rows la lo ra = statistics_engine rows' la lo ra"
proof -
  define P where "P = (\<lambda>row :: row. \<exists>d. haversine_distance la lo (fst (snd row)) (snd (snd row)) = Inr d \<and>
      d \<le> real_of_int ra)"
  define C where "C = (\<lambda>rs :: row list.
      \<forall>row \<in> set rs. \<exists>d. haversine_distance la lo (fst (snd row)) (snd (snd row)) = Inr d)"
  have ic: "inside_circle la lo ra rs = (if C rs then Inr (filter P rs) else Inl ValueError)" for rs
    unfolding P_def C_def by (rule inside_circle_eq)
  have "set rows = set rows'"
    using assms by (rule mset_eq_setD)
  then have c: "C rows = C rows'"
    by (simp add: C_def)
  have "mset (filter P rows) = mset (filter P rows')"
    using assms by simp
  then have a: "aggregate (filter P rows) = aggregate (filter P rows')"
    by (rule aggregate_mset)
  show ?thesis
    unfolding statistics_engine_def ic c by (simp add: a)
qed

text \<open>
  C9: for every sequence of rows and every permutation of it, the handler yields the
  same outcome, hence identical count, avg and std.
\<close>

theorem permutation_invariance:
  assumes "mset rows = mset rows'"
  shows "get_restaurants_statistics rows latitude longitude radius =
         get_restaurants_statistics rows' latitude longitude radius"
  unfolding get_restaurants_statistics_def
  by (simp only: statistics_engine_mset [OF assms])

theorem permutation_invariance_witness:
  "mset [(1, 0, 0), (3, 0, 0)] = mset [(3, 0, 0), (1 :: int, 0 :: real, 0 :: real)] \<and>
   get_restaurants_statistics [(1, 0, 0), (3, 0, 0)] (Some 0) (Some 0) (Some 1) =
   get_restaurants_statistics [(3, 0, 0), (1, 0, 0)] (Some 0) (Some 0) (Some 1) \<and>
   get_restaurants_statistics [(3, 0, 0), (1, 0, 0)] (Some 0) (Some 0) (Some 1) =
   Inr \<lparr>count = 2, avg = 2, std = sqrt 2\<rparr>"
proof -
  have m: "mset [(1, 0, 0), (3, 0, 0)] = mset [(3, 0, 0), (1 :: int, 0 :: real, 0 :: real)]"
    by simp
  have v: "get_restaurants_statistics [(3, 0, 0), (1, 0, 0)] (Some 0) (Some 0) (Some 1) =
      Inr \<lparr>count = 2, avg = 2, std = sqrt 2\<rparr>"
    by (simp add: handler_valid statistics_engine_def haversine_distance_same aggregate_def
        stdev_def Let_def)
  show ?thesis
    using m v permutation_invariance [OF m, of "Some 0" "Some 0" "Some 1"] by simp
qed

section \<open>Routing of the statistics request\<close>

text \<open>
  The route \<^verbatim>\<open>/restaurants/{restaurant_id}\<close> is registered before
  \<^verbatim>\<open>/restaurants/statistics\<close> and matches its path, so a \<^verbatim>\<open>GET\<close> of
  \<^verbatim>\<open>/restaurants/statistics\<close> is served by \<open>get_restaurant_by_id\<close> with the id
  \<open>''statistics''\<close>, and no request reaches the statistics endpoint.
\<close>

lemma dispatch_statistics_path:
  "dispatch routes None GET [''restaurants'', ''statistics''] =
     Some (\<lparr>route_method = GET, route_path = [Literal ''restaurants'', Param ''restaurant_id''],
            route_endpoint = Get_restaurant_by_id\<rparr>, [(''restaurant_id'', ''statistics'')])"
  by (simp add: routes_def)

lemma statistics_request_reaches_get_by_id:
  "handle_GET db [''restaurants'', ''statistics''] latitude longitude radius =
     map_sum (\<lambda>e. e) RestaurantJSON (get_restaurant_by_id db ''statistics'')"
  by (simp add: handle_GET_def dispatch_statistics_path)

lemma statistics_endpoint_unreachable:
  assumes "dispatch routes None m p = Some (r, params)"
  shows "route_endpoint r \<noteq> Get_restaurants_statistics"
proof (cases p)
  case Nil
  with assms show ?thesis by (simp add: routes_def)
next
  case (Cons a p1)
  show ?thesis
  proof (cases p1)
    case Nil
    with Cons assms show ?thesis
      by (cases m) (auto simp: routes_def split: if_splits)
  next
    case (Cons b p2)
    show ?thesis
    proof (cases p2)
      case Nil
      with Cons \<open>p = a # p1\<close> assms show ?thesis
        by (cases m) (auto simp: routes_def split: if_splits)
    next
      case (Cons c p3)
      with \<open>p1 = b # p2\<close> \<open>p = a # p1\<close> assms show ?thesis
        by (simp add: routes_def split: if_splits)
    qed
  qed
qed

text \<open>
  C1, the input at which the code departs from it: on the store of two restaurants, both
  within 1000 m of the query point, the request
  \<^verbatim>\<open>GET /restaurants/statistics?latitude=0&longitude=0&radius=1000\<close> is answered with
  the 404 \<^verbatim>\<open>Restaurant not found\<close> of \<open>get_restaurant_by_id\<close>, although the statistics
  handler on the same store and parameters returns count 2, avg 3 and std \<open>\<surd>2\<close>.
\<close>

theorem statistics_route_shadowed:
  "handle_GET two_restaurants [''restaurants'', ''statistics''] (Some 0) (Some 0) (Some 1000) =
     Inl (HTTPException 404 ''Restaurant not found'') \<and>
   get_restaurants_statistics (select_rating_lat_lng two_restaurants) (Some 0) (Some 0) (Some 1000) =
     Inr \<lparr>count = 2, avg = 3, std = sqrt 2\<rparr>"
proof
  show "handle_GET two_restaurants [''restaurants'', ''statistics''] (Some 0) (Some 0) (Some 1000) =
     Inl (HTTPException 404 ''Restaurant not found'')"
    by (simp add: handle_GET_def routes_def get_restaurant_by_id_def two_restaurants_def)
  show "get_restaurants_statistics (select_rating_lat_lng two_restaurants) (Some 0) (Some 0) (Some 1000) =
     Inr \<lparr>count = 2, avg = 3, std = sqrt 2\<rparr>"
    by (simp add: select_rating_lat_lng_def two_restaurants_def handler_valid
        statistics_engine_def haversine_distance_same aggregate_def stdev_def Let_def)
qed

end
